theory Spec2Isabelle
  imports Main "HOL-Library.AList" "HOL-Library.Word"
begin

unbundle bit_operations_syntax

section \<open>The host's node graph, as the facade sees it\<close>

text \<open>
  The facade is one TypeScript module of short builder functions over the Babylon.js
  Node Material classes. Every function allocates one or two blocks with \<open>new\<close>,
  assigns some of their properties, wires caller-supplied sockets into their input
  ports with \<open>connectTo\<close> and returns a block or one of its output sockets.

  The blocks live on the JavaScript heap. The heap is modelled as the list of the blocks
  allocated so far, a block's reference being its index; every builder takes the heap
  and returns its result together with the new heap.
\<close>

datatype NodeMaterialBlockTargets = Vertex | Fragment | Neutral | VertexAndFragment

text \<open>
  The host's enumeration is a set of bit flags: \<open>Vertex = 1\<close>, \<open>Fragment = 2\<close>,
  \<open>Neutral = 4\<close> and \<open>VertexAndFragment = Vertex | Fragment = 3\<close>.
\<close>

fun target_bits :: "NodeMaterialBlockTargets \<Rightarrow> nat" where
  "target_bits Vertex = 1"
| "target_bits Fragment = 2"
| "target_bits Neutral = 4"
| "target_bits VertexAndFragment = 3"

text \<open>The module's constant \<open>Stage\<close>, member by member.\<close>

abbreviation Stage_VERT :: NodeMaterialBlockTargets where
  "Stage_VERT \<equiv> Vertex"

abbreviation Stage_FRAG :: NodeMaterialBlockTargets where
  "Stage_FRAG \<equiv> Fragment"

abbreviation Stage_VERT_AND_FRAG :: NodeMaterialBlockTargets where
  "Stage_VERT_AND_FRAG \<equiv> VertexAndFragment"

abbreviation Stage_NEUTRAL :: NodeMaterialBlockTargets where
  "Stage_NEUTRAL \<equiv> Neutral"

text \<open>
  Of the host's enumerations \<open>NodeMaterialSystemValues\<close> and
  \<open>TrigonometryBlockOperations\<close> only the members the module names are listed.
\<close>

datatype NodeMaterialSystemValues = World | View | ViewProjection | CameraPosition

datatype TrigonometryBlockOperations = Fract

text \<open>The host classes the module instantiates.\<close>

datatype block_class =
    InputBlock | TextureBlock | TransformBlock | TrigonometryBlock | ScaleBlock
  | MultiplyBlock | VectorMergerBlock | VectorSplitterBlock | PerturbNormalBlock
  | PBRMetallicRoughnessBlock | FragmentOutputBlock | VertexOutputBlock

text \<open>
  A connection point (socket) is a port of a block: \<open>merger.x\<close> of the source is
  \<open>ConnectionPoint merger ''x''\<close>.
\<close>

datatype NodeMaterialConnectionPoint = ConnectionPoint (owner: nat) (port: string)

text \<open>
  A JavaScript \<open>number\<close> is an IEEE 754 double. The module only stores numbers and never
  computes with them, so a number is carried as its 64 bits: every value a caller can
  pass, the infinities, the NaNs and the negative zero included, is one of them. The
  two literals of the source, \<open>0\<close> and \<open>1\<close>, are the doubles \<open>+0.0\<close> and \<open>1.0\<close>; \<open>js_2\<close>
  is the double \<open>2.0\<close>, used in examples. A texture is an opaque resource of the host,
  known by its reference.
\<close>

type_synonym number = "64 word"

definition js_0 :: number where
  "js_0 = 0"

definition js_1 :: number where
  "js_1 = 0x3FF0000000000000"

definition js_2 :: number where
  "js_2 = 0x4000000000000000"

datatype Texture = Texture nat

datatype babylon_vector =
    Vector2 number number
  | Vector3 number number number
  | Vector4 number number number number

text \<open>The values the module assigns to properties of blocks.\<close>

datatype js_value =
    Bool bool
  | Number number
  | Str string
  | Target NodeMaterialBlockTargets
  | SystemValue NodeMaterialSystemValues
  | Operation TrigonometryBlockOperations
  | Vector babylon_vector
  | TextureRef Texture

text \<open>
  A block object: its class, the display name given to its constructor, its properties
  as far as the model follows them (the target its constructor leaves, and every property
  assigned since, in assignment order) and, for each wired input port, the output socket
  that drives it. A property that is not listed was never assigned: it has whatever the
  host's constructor gave it.
\<close>

record NodeMaterialBlock =
  className :: block_class
  name :: string
  props :: "(string \<times> js_value) list"
  inputs :: "(string \<times> NodeMaterialConnectionPoint) list"

type_synonym heap = "NodeMaterialBlock list"

text \<open>Reading a block back: a property, and the socket wired to an input port.\<close>

definition assigned :: "heap \<Rightarrow> nat \<Rightarrow> string \<Rightarrow> js_value option" where
  "assigned h b k = map_of (props (h ! b)) k"

definition wired :: "heap \<Rightarrow> nat \<Rightarrow> string \<Rightarrow> NodeMaterialConnectionPoint option" where
  "wired h b p = map_of (inputs (h ! b)) p"

text \<open>
  Modelled from the spec: the host's constructors \<open>new InputBlock(name)\<close>,
  \<open>new TextureBlock(name)\<close> and so on are missing (the host engine is not part of
  the repository). A node is created fresh on every call: the constructor allocates a new
  block of the given class and display name, with no input wired, and returns its
  reference.

  Each host class constructs its blocks with a target of its own, which the spec does
  not list; it is the host library's: an input block and a vertex output are \<open>Vertex\<close>;
  a fragment output and a perturb-normal block are \<open>Fragment\<close>; a PBR block is
  \<open>VertexAndFragment\<close>; the arithmetic, merger and splitter blocks are \<open>Neutral\<close>; a
  transform block is constructed \<open>Neutral\<close> and set to \<open>Vertex\<close> by its own constructor.
  A texture block has no stored target: the host computes it from the block's wiring.
\<close>

fun constructed_target :: "block_class \<Rightarrow> NodeMaterialBlockTargets option" where
  "constructed_target InputBlock = Some Vertex"
| "constructed_target TextureBlock = None"
| "constructed_target TransformBlock = Some Vertex"
| "constructed_target TrigonometryBlock = Some Neutral"
| "constructed_target ScaleBlock = Some Neutral"
| "constructed_target MultiplyBlock = Some Neutral"
| "constructed_target VectorMergerBlock = Some Neutral"
| "constructed_target VectorSplitterBlock = Some Neutral"
| "constructed_target PerturbNormalBlock = Some Fragment"
| "constructed_target PBRMetallicRoughnessBlock = Some VertexAndFragment"
| "constructed_target FragmentOutputBlock = Some Fragment"
| "constructed_target VertexOutputBlock = Some Vertex"

definition new_block :: "block_class \<Rightarrow> string \<Rightarrow> heap \<Rightarrow> nat \<times> heap" where
  "new_block c n h =
     (length h,
      h @ [\<lparr>className = c, name = n,
             props = (case constructed_target c of
                        None \<Rightarrow> []
                      | Some t \<Rightarrow> [(''target'', Target t)]),
             inputs = []\<rparr>])"

text \<open>
  Modelled from the spec: the property setters of the host's blocks are missing. The spec
  calls them simple property assignment at creation time: \<open>b.k = v\<close> stores \<open>v\<close> under
  \<open>k\<close> in block \<open>b\<close>, replacing an earlier value.
\<close>

definition assign :: "nat \<Rightarrow> string \<Rightarrow> js_value \<Rightarrow> heap \<Rightarrow> heap" where
  "assign b k v h = h[b := (h ! b)\<lparr>props := AList.update k v (props (h ! b))\<rparr>]"

text \<open>
  Modelled from the spec, but for the guard, which is the host library's: the setter of
  \<open>target\<close> is missing. It is not a plain store. The host's setter returns at once when
  the new value shares a bit with the block's current target,
  \<open>if ((this._target & value) !== 0) return\<close>, and stores the value otherwise. The
  setter of a texture block, which has no stored target, does nothing.
\<close>

definition set_target :: "nat \<Rightarrow> NodeMaterialBlockTargets \<Rightarrow> heap \<Rightarrow> heap" where
  "set_target b v h =
     (case assigned h b ''target'' of
        Some (Target cur) \<Rightarrow>
          if target_bits cur AND target_bits v \<noteq> 0 then h
          else assign b ''target'' (Target v) h
      | _ \<Rightarrow> h)"

text \<open>
  Modelled from the spec: the host's methods \<open>setAsSystemValue\<close> and \<open>setAsAttribute\<close>
  of an input block are missing. They make the block a uniform source of a system value,
  or a source of the named vertex attribute; the model records which.
\<close>

definition setAsSystemValue :: "nat \<Rightarrow> NodeMaterialSystemValues \<Rightarrow> heap \<Rightarrow> heap" where
  "setAsSystemValue b v h = assign b ''systemValue'' (SystemValue v) h"

definition setAsAttribute :: "nat \<Rightarrow> string \<Rightarrow> heap \<Rightarrow> heap" where
  "setAsAttribute b n h = assign b ''attribute'' (Str n) h"

text \<open>
  The test the host's transform block makes of a socket that is being wired to its
  \<open>vector\<close> input: does it belong to an input block named \<open>normal\<close> or \<open>tangent\<close>?
\<close>

definition from_normal_or_tangent :: "heap \<Rightarrow> NodeMaterialConnectionPoint \<Rightarrow> bool" where
  "from_normal_or_tangent h src =
     (owner src < length h \<and> className (h ! owner src) = InputBlock
      \<and> (name (h ! owner src) = ''normal'' \<or> name (h ! owner src) = ''tangent''))"

text \<open>
  Modelled from the spec, but for the observer, which is the host library's: the host's
  wiring primitive \<open>connectTo\<close> is missing. \<open>src.connectTo(dst)\<close> wires the output socket
  \<open>src\<close> to the input socket \<open>dst\<close>: an input accepts one incoming wire, which is
  recorded at the block that owns \<open>dst\<close>; an output may drive any number of inputs. The
  facade validates nothing, and the host's own validation is outside the model.

  Wiring then notifies the observers of the input socket. Of the blocks the module
  creates, the transform block has one, on its \<open>vector\<close> input: when the socket wired to
  it belongs to an input block named \<open>normal\<close> or \<open>tangent\<close>, the observer sets the
  transform block's \<open>complementW\<close> to \<open>0\<close>.
\<close>

definition connectTo ::
  "NodeMaterialConnectionPoint \<Rightarrow> NodeMaterialConnectionPoint \<Rightarrow> heap \<Rightarrow> heap" where
  "connectTo src dst h =
     (let h1 = h[owner dst :=
                   (h ! owner dst)\<lparr>inputs := AList.update (port dst) src (inputs (h ! owner dst))\<rparr>]
      in if owner dst < length h \<and> className (h ! owner dst) = TransformBlock
            \<and> port dst = ''vector'' \<and> from_normal_or_tangent h src
         then assign (owner dst) ''complementW'' (Number js_0) h1
         else h1)"

text \<open>
  The optional call \<open>src?.connectTo(dst)\<close> and the test \<open>if (src) src.connectTo(dst)\<close>
  of the source: nothing happens when the socket is \<open>null\<close>.
\<close>

definition connectTo_opt ::
  "NodeMaterialConnectionPoint option \<Rightarrow> NodeMaterialConnectionPoint \<Rightarrow> heap \<Rightarrow> heap" where
  "connectTo_opt src dst h = (case src of None \<Rightarrow> h | Some s \<Rightarrow> connectTo s dst h)"

text \<open>The nullish coalescing operator \<open>x ?? d\<close>.\<close>

definition nullish :: "'a option \<Rightarrow> 'a \<Rightarrow> 'a" where
  "nullish x d = (case x of None \<Rightarrow> d | Some v \<Rightarrow> v)"

section \<open>The builder functions\<close>

subsection \<open>Uniform and attribute sources\<close>

definition uniformCameraPosition :: "heap \<Rightarrow> NodeMaterialConnectionPoint \<times> heap" where
  "uniformCameraPosition h0 =
     (let (cameraPosition, h1) = new_block InputBlock ''cameraPosition'' h0;
          h2 = set_target cameraPosition VertexAndFragment h1;
          h3 = setAsSystemValue cameraPosition CameraPosition h2
      in (ConnectionPoint cameraPosition ''output'', h3))"

definition uniformView :: "heap \<Rightarrow> NodeMaterialConnectionPoint \<times> heap" where
  "uniformView h0 =
     (let (view, h1) = new_block InputBlock ''view'' h0;
          h2 = set_target view VertexAndFragment h1;
          h3 = setAsSystemValue view View h2
      in (ConnectionPoint view ''output'', h3))"

definition uniformViewProjection :: "heap \<Rightarrow> NodeMaterialConnectionPoint \<times> heap" where
  "uniformViewProjection h0 =
     (let (viewProjection, h1) = new_block InputBlock ''ViewProjection'' h0;
          h2 = set_target viewProjection VertexAndFragment h1;
          h3 = setAsSystemValue viewProjection ViewProjection h2
      in (ConnectionPoint viewProjection ''output'', h3))"

definition uniformWorld :: "heap \<Rightarrow> NodeMaterialConnectionPoint \<times> heap" where
  "uniformWorld h0 =
     (let (world, h1) = new_block InputBlock ''world'' h0;
          h2 = set_target world VertexAndFragment h1;
          h3 = setAsSystemValue world World h2
      in (ConnectionPoint world ''output'', h3))"

definition vertexAttribute :: "string \<Rightarrow> heap \<Rightarrow> NodeMaterialConnectionPoint \<times> heap" where
  "vertexAttribute attributeName h0 =
     (let (position, h1) = new_block InputBlock attributeName h0;
          h2 = set_target position Vertex h1;
          h3 = setAsAttribute position attributeName h2
      in (ConnectionPoint position ''output'', h3))"

definition float :: "number \<Rightarrow> heap \<Rightarrow> NodeMaterialConnectionPoint \<times> heap" where
  "float val h0 =
     (let (inputBlock, h1) = new_block InputBlock ''float'' h0;
          h2 = set_target inputBlock Stage_VERT_AND_FRAG h1;
          h3 = assign inputBlock ''value'' (Number val) h2
      in (ConnectionPoint inputBlock ''output'', h3))"

definition constFloat :: "string \<Rightarrow> number \<Rightarrow> heap \<Rightarrow> NodeMaterialConnectionPoint \<times> heap" where
  "constFloat nm val h0 =
     (let (inputBlock, h1) = new_block InputBlock nm h0;
          h2 = set_target inputBlock Stage_VERT_AND_FRAG h1;
          h3 = assign inputBlock ''value'' (Number val) h2;
          h4 = assign inputBlock ''isConstant'' (Bool True) h3
      in (ConnectionPoint inputBlock ''output'', h4))"

definition uniformFloat :: "string \<Rightarrow> number \<Rightarrow> heap \<Rightarrow> NodeMaterialConnectionPoint \<times> heap" where
  "uniformFloat nm val h0 =
     (let (inputBlock, h1) = new_block InputBlock nm h0;
          h2 = set_target inputBlock Stage_VERT_AND_FRAG h1;
          h3 = assign inputBlock ''value'' (Number val) h2;
          h4 = assign inputBlock ''matrixMode'' (Number js_0) h3
      in (ConnectionPoint inputBlock ''output'', h4))"

subsection \<open>Texture sampling\<close>

text \<open>
  \<open>Partial<TextureBlockProps>\<close>: each field may be absent. The parameter \<open>props\<close>
  itself is optional.
\<close>

record TextureBlockProps =
  convertToLinearSpace :: "bool option"
  convertToGammaSpace :: "bool option"
  disableLevelMultiplication :: "bool option"

definition sampleTexture ::
  "Texture \<Rightarrow> NodeMaterialConnectionPoint \<Rightarrow> TextureBlockProps option \<Rightarrow> heap \<Rightarrow> nat \<times> heap" where
  "sampleTexture texture uv props0 h0 =
     (let (textureBlock, h1) = new_block TextureBlock ''texture'' h0;
          h2 = set_target textureBlock VertexAndFragment h1;
          h3 = assign textureBlock ''convertToGammaSpace''
                 (Bool (nullish (Option.bind props0 TextureBlockProps.convertToGammaSpace) False)) h2;
          h4 = assign textureBlock ''convertToLinearSpace''
                 (Bool (nullish (Option.bind props0 TextureBlockProps.convertToLinearSpace) False)) h3;
          h5 = assign textureBlock ''disableLevelMultiplication''
                 (Bool (nullish (Option.bind props0 TextureBlockProps.disableLevelMultiplication) False)) h4;
          h6 = assign textureBlock ''texture'' (TextureRef texture) h5;
          h7 = connectTo uv (ConnectionPoint textureBlock ''uv'') h6
      in (textureBlock, h7))"

subsection \<open>Geometric transforms\<close>

definition transformPosition ::
  "NodeMaterialConnectionPoint \<Rightarrow> NodeMaterialConnectionPoint \<Rightarrow> NodeMaterialBlockTargets
     \<Rightarrow> heap \<Rightarrow> NodeMaterialConnectionPoint \<times> heap" where
  "transformPosition transformMat4 positionVec3 stage h0 =
     (let (transformBlock, h1) = new_block TransformBlock ''TransformPosition'' h0;
          h2 = set_target transformBlock stage h1;
          h3 = assign transformBlock ''complementZ'' (Number js_0) h2;
          h4 = assign transformBlock ''complementW'' (Number js_1) h3;
          h5 = connectTo positionVec3 (ConnectionPoint transformBlock ''vector'') h4;
          h6 = connectTo transformMat4 (ConnectionPoint transformBlock ''transform'') h5
      in (ConnectionPoint transformBlock ''output'', h6))"

definition transformDirection ::
  "NodeMaterialConnectionPoint \<Rightarrow> NodeMaterialConnectionPoint \<Rightarrow> NodeMaterialBlockTargets
     \<Rightarrow> heap \<Rightarrow> NodeMaterialConnectionPoint \<times> heap" where
  "transformDirection transformMat4 directionVec3 stage h0 =
     (let (transformBlock, h1) = new_block TransformBlock ''TransformDirection'' h0;
          h2 = set_target transformBlock stage h1;
          h3 = assign transformBlock ''complementZ'' (Number js_0) h2;
          h4 = assign transformBlock ''complementW'' (Number js_0) h3;
          h5 = connectTo directionVec3 (ConnectionPoint transformBlock ''vector'') h4;
          h6 = connectTo transformMat4 (ConnectionPoint transformBlock ''transform'') h5
      in (ConnectionPoint transformBlock ''output'', h6))"

subsection \<open>Arithmetic\<close>

definition fract ::
  "NodeMaterialConnectionPoint \<Rightarrow> NodeMaterialBlockTargets
     \<Rightarrow> heap \<Rightarrow> NodeMaterialConnectionPoint \<times> heap" where
  "fract input stage h0 =
     (let (fractBlock, h1) = new_block TrigonometryBlock ''fract'' h0;
          h2 = assign fractBlock ''operation'' (Operation Fract) h1;
          h3 = set_target fractBlock stage h2;
          h4 = connectTo input (ConnectionPoint fractBlock ''input'') h3
      in (ConnectionPoint fractBlock ''output'', h4))"

definition mul ::
  "NodeMaterialConnectionPoint \<Rightarrow> NodeMaterialConnectionPoint \<Rightarrow> NodeMaterialBlockTargets
     \<Rightarrow> heap \<Rightarrow> NodeMaterialConnectionPoint \<times> heap" where
  "mul input factor stage h0 =
     (let (scaleBlock, h1) = new_block ScaleBlock ''Position to UV scale'' h0;
          h2 = set_target scaleBlock stage h1;
          h3 = connectTo input (ConnectionPoint scaleBlock ''input'') h2;
          h4 = connectTo factor (ConnectionPoint scaleBlock ''factor'') h3
      in (ConnectionPoint scaleBlock ''output'', h4))"

definition mulVec ::
  "NodeMaterialConnectionPoint \<Rightarrow> NodeMaterialConnectionPoint \<Rightarrow> NodeMaterialBlockTargets
     \<Rightarrow> heap \<Rightarrow> NodeMaterialConnectionPoint \<times> heap" where
  "mulVec left right stage h0 =
     (let (multBlock, h1) = new_block MultiplyBlock ''scaledMeshUV'' h0;
          h2 = set_target multBlock stage h1;
          h3 = connectTo left (ConnectionPoint multBlock ''left'') h2;
          h4 = connectTo right (ConnectionPoint multBlock ''right'') h3
      in (ConnectionPoint multBlock ''output'', h4))"

subsection \<open>Vector assembly and disassembly\<close>

definition merge ::
  "NodeMaterialConnectionPoint \<Rightarrow> NodeMaterialConnectionPoint
     \<Rightarrow> NodeMaterialConnectionPoint option \<Rightarrow> NodeMaterialConnectionPoint option
     \<Rightarrow> NodeMaterialBlockTargets \<Rightarrow> heap \<Rightarrow> nat \<times> heap" where
  "merge x y z w stage h0 =
     (let (merger, h1) = new_block VectorMergerBlock ''Merge'' h0;
          h2 = set_target merger stage h1;
          h3 = connectTo x (ConnectionPoint merger ''x'') h2;
          h4 = connectTo y (ConnectionPoint merger ''y'') h3;
          h5 = connectTo_opt z (ConnectionPoint merger ''z'') h4;
          h6 = connectTo_opt w (ConnectionPoint merger ''w'') h5
      in (merger, h6))"

definition vecFromBabylon :: "babylon_vector \<Rightarrow> heap \<Rightarrow> NodeMaterialConnectionPoint \<times> heap" where
  "vecFromBabylon vec h0 =
     (let (meshUVScaleFactor, h1) = new_block InputBlock ''Mesh UV scale factor'' h0;
          h2 = assign meshUVScaleFactor ''isConstant'' (Bool True) h1;
          h3 = assign meshUVScaleFactor ''value'' (Vector vec) h2
      in (ConnectionPoint meshUVScaleFactor ''output'', h3))"

definition vec2 ::
  "NodeMaterialConnectionPoint \<Rightarrow> NodeMaterialConnectionPoint \<Rightarrow> NodeMaterialBlockTargets
     \<Rightarrow> heap \<Rightarrow> NodeMaterialConnectionPoint \<times> heap" where
  "vec2 x y stage h0 =
     (let (merger, h1) = merge x y None None stage h0
      in (ConnectionPoint merger ''xyOut'', h1))"

definition vec3 ::
  "NodeMaterialConnectionPoint \<Rightarrow> NodeMaterialConnectionPoint \<Rightarrow> NodeMaterialConnectionPoint
     \<Rightarrow> NodeMaterialBlockTargets \<Rightarrow> heap \<Rightarrow> NodeMaterialConnectionPoint \<times> heap" where
  "vec3 x y z stage h0 =
     (let (merger, h1) = merge x y (Some z) None stage h0
      in (ConnectionPoint merger ''xyzOut'', h1))"

definition vec4 ::
  "NodeMaterialConnectionPoint \<Rightarrow> NodeMaterialConnectionPoint \<Rightarrow> NodeMaterialConnectionPoint
     \<Rightarrow> NodeMaterialConnectionPoint \<Rightarrow> NodeMaterialBlockTargets
     \<Rightarrow> heap \<Rightarrow> NodeMaterialConnectionPoint \<times> heap" where
  "vec4 x y z w stage h0 =
     (let (merger, h1) = merge x y (Some z) (Some w) stage h0
      in (ConnectionPoint merger ''xyzw'', h1))"

definition splitVec2 ::
  "NodeMaterialConnectionPoint \<Rightarrow> NodeMaterialBlockTargets \<Rightarrow> heap \<Rightarrow> nat \<times> heap" where
  "splitVec2 inputVec2 stage h0 =
     (let (splitBlock, h1) = new_block VectorSplitterBlock ''splitVec2'' h0;
          h2 = set_target splitBlock stage h1;
          h3 = connectTo inputVec2 (ConnectionPoint splitBlock ''xyIn'') h2
      in (splitBlock, h3))"

definition splitVec3 ::
  "NodeMaterialConnectionPoint \<Rightarrow> NodeMaterialBlockTargets \<Rightarrow> heap \<Rightarrow> nat \<times> heap" where
  "splitVec3 inputVec3 stage h0 =
     (let (splitBlock, h1) = new_block VectorSplitterBlock ''splitVec3'' h0;
          h2 = set_target splitBlock stage h1;
          h3 = connectTo inputVec3 (ConnectionPoint splitBlock ''xyzIn'') h2
      in (splitBlock, h3))"

definition xy ::
  "NodeMaterialConnectionPoint \<Rightarrow> NodeMaterialBlockTargets
     \<Rightarrow> heap \<Rightarrow> NodeMaterialConnectionPoint \<times> heap" where
  "xy inputVec3 stage h0 =
     (let (inputSplitted, h1) = splitVec3 inputVec3 stage h0
      in (ConnectionPoint inputSplitted ''xyOut'', h1))"

definition xz ::
  "NodeMaterialConnectionPoint \<Rightarrow> NodeMaterialBlockTargets
     \<Rightarrow> heap \<Rightarrow> NodeMaterialConnectionPoint \<times> heap" where
  "xz inputVec3 stage h0 =
     (let (inputSplitted, h1) = splitVec3 inputVec3 stage h0;
          (outputXZ, h2) = new_block VectorMergerBlock ''OutputXZ'' h1;
          h3 = set_target outputXZ stage h2;
          h4 = connectTo (ConnectionPoint inputSplitted ''x'') (ConnectionPoint outputXZ ''x'') h3;
          h5 = connectTo (ConnectionPoint inputSplitted ''z'') (ConnectionPoint outputXZ ''y'') h4
      in (ConnectionPoint outputXZ ''xyOut'', h5))"

subsection \<open>Lighting and material composition\<close>

definition perturbNormal ::
  "NodeMaterialConnectionPoint \<Rightarrow> NodeMaterialConnectionPoint \<Rightarrow> NodeMaterialConnectionPoint
     \<Rightarrow> NodeMaterialConnectionPoint \<Rightarrow> NodeMaterialConnectionPoint
     \<Rightarrow> heap \<Rightarrow> NodeMaterialConnectionPoint \<times> heap" where
  "perturbNormal uv positionWorldVec3 normalWorldVec3 normalTexture bumpStrengthFloat h0 =
     (let (perturbnormal, h1) = new_block PerturbNormalBlock ''Perturb normal'' h0;
          h2 = set_target perturbnormal Fragment h1;
          h3 = connectTo uv (ConnectionPoint perturbnormal ''uv'') h2;
          h4 = connectTo positionWorldVec3 (ConnectionPoint perturbnormal ''worldPosition'') h3;
          h5 = connectTo normalWorldVec3 (ConnectionPoint perturbnormal ''worldNormal'') h4;
          h6 = connectTo normalTexture (ConnectionPoint perturbnormal ''normalMapColor'') h5;
          h7 = connectTo bumpStrengthFloat (ConnectionPoint perturbnormal ''strength'') h6
      in (ConnectionPoint perturbnormal ''output'', h7))"

definition pbrMetallicRoughnessMaterial ::
  "NodeMaterialConnectionPoint \<Rightarrow> NodeMaterialConnectionPoint \<Rightarrow> NodeMaterialConnectionPoint
     \<Rightarrow> NodeMaterialConnectionPoint option
     \<Rightarrow> NodeMaterialConnectionPoint \<Rightarrow> NodeMaterialConnectionPoint \<Rightarrow> NodeMaterialConnectionPoint
     \<Rightarrow> NodeMaterialConnectionPoint \<Rightarrow> NodeMaterialConnectionPoint
     \<Rightarrow> heap \<Rightarrow> NodeMaterialConnectionPoint \<times> heap" where
  "pbrMetallicRoughnessMaterial albedoRgb metallicFloat roughnessFloat ambientOcclusionFloat
       perturbedNormalVec3 normalWorldVec3 viewMat4 cameraPositionVec3 positionWorldVec3 h0 =
     (let (pbr, h1) = new_block PBRMetallicRoughnessBlock ''PBRMetallicRoughness'' h0;
          h2 = set_target pbr Fragment h1;
          h3 = assign pbr ''useEnergyConservation'' (Bool True) h2;
          h4 = assign pbr ''useRadianceOcclusion'' (Bool True) h3;
          h5 = assign pbr ''useHorizonOcclusion'' (Bool True) h4;
          h6 = connectTo albedoRgb (ConnectionPoint pbr ''baseColor'') h5;
          h7 = connectTo metallicFloat (ConnectionPoint pbr ''metallic'') h6;
          h8 = connectTo roughnessFloat (ConnectionPoint pbr ''roughness'') h7;
          h9 = connectTo_opt ambientOcclusionFloat (ConnectionPoint pbr ''ambientOcc'') h8;
          h10 = connectTo perturbedNormalVec3 (ConnectionPoint pbr ''perturbedNormal'') h9;
          h11 = connectTo normalWorldVec3 (ConnectionPoint pbr ''worldNormal'') h10;
          h12 = connectTo viewMat4 (ConnectionPoint pbr ''view'') h11;
          h13 = connectTo cameraPositionVec3 (ConnectionPoint pbr ''cameraPosition'') h12;
          h14 = connectTo positionWorldVec3 (ConnectionPoint pbr ''worldPosition'') h13
      in (ConnectionPoint pbr ''lighting'', h14))"

subsection \<open>Sinks\<close>

text \<open>\<open>OutputFragColorProps\<close>: both fields are required; the record itself is optional.\<close>

record OutputFragColorProps =
  convertToLinearSpace :: bool
  convertToGammaSpace :: bool

definition outputFragColor ::
  "NodeMaterialConnectionPoint \<Rightarrow> OutputFragColorProps option \<Rightarrow> heap \<Rightarrow> nat \<times> heap" where
  "outputFragColor colorRgb props0 h0 =
     (let (fragmentOutput, h1) = new_block FragmentOutputBlock ''FragmentOutput'' h0;
          h2 = set_target fragmentOutput Fragment h1;
          h3 = assign fragmentOutput ''convertToGammaSpace''
                 (Bool (nullish (map_option OutputFragColorProps.convertToGammaSpace props0) False)) h2;
          h4 = assign fragmentOutput ''convertToLinearSpace''
                 (Bool (nullish (map_option OutputFragColorProps.convertToLinearSpace props0) False)) h3;
          h5 = connectTo colorRgb (ConnectionPoint fragmentOutput ''rgb'') h4
      in (fragmentOutput, h5))"

definition outputVertexPosition :: "NodeMaterialConnectionPoint \<Rightarrow> heap \<Rightarrow> nat \<times> heap" where
  "outputVertexPosition positionVec4 h0 =
     (let (vertexOutput, h1) = new_block VertexOutputBlock ''VertexOutput'' h0;
          h2 = set_target vertexOutput Vertex h1;
          h3 = connectTo positionVec4 (ConnectionPoint vertexOutput ''vector'') h2
      in (vertexOutput, h3))"

section \<open>The derived extractors, written by hand\<close>

text \<open>
  The spec describes \<open>xy\<close> and \<open>xz\<close> as splitting a vector and re-merging the selected
  components. That description, written with the module's own \<open>splitVec3\<close> and \<open>vec2\<close>,
  is what the two builders are compared with.
\<close>

definition xy_manual ::
  "NodeMaterialConnectionPoint \<Rightarrow> NodeMaterialBlockTargets
     \<Rightarrow> heap \<Rightarrow> NodeMaterialConnectionPoint \<times> heap" where
  "xy_manual inputVec3 stage h0 =
     (let (split, h1) = splitVec3 inputVec3 stage h0
      in vec2 (ConnectionPoint split ''x'') (ConnectionPoint split ''y'') stage h1)"

definition xz_manual ::
  "NodeMaterialConnectionPoint \<Rightarrow> NodeMaterialBlockTargets
     \<Rightarrow> heap \<Rightarrow> NodeMaterialConnectionPoint \<times> heap" where
  "xz_manual inputVec3 stage h0 =
     (let (split, h1) = splitVec3 inputVec3 stage h0
      in vec2 (ConnectionPoint split ''x'') (ConnectionPoint split ''z'') stage h1)"

section \<open>A call of any exported builder\<close>

text \<open>
  To speak of every builder at once, a call of an exported function is a value: the
  function and its arguments. \<open>call\<close> runs it; what it returns is a socket or a block.
\<close>

datatype factory_call =
    Call_uniformCameraPosition
  | Call_uniformView
  | Call_uniformViewProjection
  | Call_uniformWorld
  | Call_vertexAttribute string
  | Call_float number
  | Call_constFloat string number
  | Call_uniformFloat string number
  | Call_sampleTexture Texture NodeMaterialConnectionPoint "TextureBlockProps option"
  | Call_transformPosition NodeMaterialConnectionPoint NodeMaterialConnectionPoint
      NodeMaterialBlockTargets
  | Call_transformDirection NodeMaterialConnectionPoint NodeMaterialConnectionPoint
      NodeMaterialBlockTargets
  | Call_fract NodeMaterialConnectionPoint NodeMaterialBlockTargets
  | Call_mul NodeMaterialConnectionPoint NodeMaterialConnectionPoint NodeMaterialBlockTargets
  | Call_mulVec NodeMaterialConnectionPoint NodeMaterialConnectionPoint NodeMaterialBlockTargets
  | Call_merge NodeMaterialConnectionPoint NodeMaterialConnectionPoint
      "NodeMaterialConnectionPoint option" "NodeMaterialConnectionPoint option"
      NodeMaterialBlockTargets
  | Call_vecFromBabylon babylon_vector
  | Call_vec2 NodeMaterialConnectionPoint NodeMaterialConnectionPoint NodeMaterialBlockTargets
  | Call_vec3 NodeMaterialConnectionPoint NodeMaterialConnectionPoint NodeMaterialConnectionPoint
      NodeMaterialBlockTargets
  | Call_vec4 NodeMaterialConnectionPoint NodeMaterialConnectionPoint NodeMaterialConnectionPoint
      NodeMaterialConnectionPoint NodeMaterialBlockTargets
  | Call_splitVec2 NodeMaterialConnectionPoint NodeMaterialBlockTargets
  | Call_splitVec3 NodeMaterialConnectionPoint NodeMaterialBlockTargets
  | Call_xy NodeMaterialConnectionPoint NodeMaterialBlockTargets
  | Call_xz NodeMaterialConnectionPoint NodeMaterialBlockTargets
  | Call_perturbNormal NodeMaterialConnectionPoint NodeMaterialConnectionPoint
      NodeMaterialConnectionPoint NodeMaterialConnectionPoint NodeMaterialConnectionPoint
  | Call_pbrMetallicRoughnessMaterial NodeMaterialConnectionPoint NodeMaterialConnectionPoint
      NodeMaterialConnectionPoint "NodeMaterialConnectionPoint option"
      NodeMaterialConnectionPoint NodeMaterialConnectionPoint NodeMaterialConnectionPoint
      NodeMaterialConnectionPoint NodeMaterialConnectionPoint
  | Call_outputFragColor NodeMaterialConnectionPoint "OutputFragColorProps option"
  | Call_outputVertexPosition NodeMaterialConnectionPoint

datatype returned = Socket NodeMaterialConnectionPoint | Block nat

fun node_of :: "returned \<Rightarrow> nat" where
  "node_of (Socket s) = owner s"
| "node_of (Block b) = b"

fun call :: "factory_call \<Rightarrow> heap \<Rightarrow> returned \<times> heap" where
  "call Call_uniformCameraPosition h = apfst Socket (uniformCameraPosition h)"
| "call Call_uniformView h = apfst Socket (uniformView h)"
| "call Call_uniformViewProjection h = apfst Socket (uniformViewProjection h)"
| "call Call_uniformWorld h = apfst Socket (uniformWorld h)"
| "call (Call_vertexAttribute n) h = apfst Socket (vertexAttribute n h)"
| "call (Call_float v) h = apfst Socket (float v h)"
| "call (Call_constFloat n v) h = apfst Socket (constFloat n v h)"
| "call (Call_uniformFloat n v) h = apfst Socket (uniformFloat n v h)"
| "call (Call_sampleTexture t uv p) h = apfst Block (sampleTexture t uv p h)"
| "call (Call_transformPosition m v s) h = apfst Socket (transformPosition m v s h)"
| "call (Call_transformDirection m v s) h = apfst Socket (transformDirection m v s h)"
| "call (Call_fract i s) h = apfst Socket (fract i s h)"
| "call (Call_mul i f s) h = apfst Socket (mul i f s h)"
| "call (Call_mulVec l r s) h = apfst Socket (mulVec l r s h)"
| "call (Call_merge x y z w s) h = apfst Block (merge x y z w s h)"
| "call (Call_vecFromBabylon v) h = apfst Socket (vecFromBabylon v h)"
| "call (Call_vec2 x y s) h = apfst Socket (vec2 x y s h)"
| "call (Call_vec3 x y z s) h = apfst Socket (vec3 x y z s h)"
| "call (Call_vec4 x y z w s) h = apfst Socket (vec4 x y z w s h)"
| "call (Call_splitVec2 v s) h = apfst Block (splitVec2 v s h)"
| "call (Call_splitVec3 v s) h = apfst Block (splitVec3 v s h)"
| "call (Call_xy v s) h = apfst Socket (xy v s h)"
| "call (Call_xz v s) h = apfst Socket (xz v s h)"
| "call (Call_perturbNormal uv p n t b) h = apfst Socket (perturbNormal uv p n t b h)"
| "call (Call_pbrMetallicRoughnessMaterial a m r ao pn n v c p) h =
     apfst Socket (pbrMetallicRoughnessMaterial a m r ao pn n v c p h)"
| "call (Call_outputFragColor c p) h = apfst Block (outputFragColor c p h)"
| "call (Call_outputVertexPosition p) h = apfst Block (outputVertexPosition p h)"

text \<open>The heap after a sequence of calls, made one after the other.\<close>

fun run :: "factory_call list \<Rightarrow> heap \<Rightarrow> heap" where
  "run [] h = h"
| "run (c # cs) h = run cs (snd (call c h))"

text \<open>
  The sockets a call passes to its builder, and the number of blocks the builder
  constructs with \<open>new\<close>: one, but for \<open>xz\<close>, which constructs a splitter (through
  \<open>splitVec3\<close>) and a merger.
\<close>

fun opt_socket :: "NodeMaterialConnectionPoint option \<Rightarrow> NodeMaterialConnectionPoint list" where
  "opt_socket None = []"
| "opt_socket (Some s) = [s]"

fun arguments :: "factory_call \<Rightarrow> NodeMaterialConnectionPoint list" where
  "arguments Call_uniformCameraPosition = []"
| "arguments Call_uniformView = []"
| "arguments Call_uniformViewProjection = []"
| "arguments Call_uniformWorld = []"
| "arguments (Call_vertexAttribute n) = []"
| "arguments (Call_float v) = []"
| "arguments (Call_constFloat n v) = []"
| "arguments (Call_uniformFloat n v) = []"
| "arguments (Call_sampleTexture t uv p) = [uv]"
| "arguments (Call_transformPosition m v s) = [m, v]"
| "arguments (Call_transformDirection m v s) = [m, v]"
| "arguments (Call_fract i s) = [i]"
| "arguments (Call_mul i f s) = [i, f]"
| "arguments (Call_mulVec l r s) = [l, r]"
| "arguments (Call_merge x y z w s) = [x, y] @ opt_socket z @ opt_socket w"
| "arguments (Call_vecFromBabylon v) = []"
| "arguments (Call_vec2 x y s) = [x, y]"
| "arguments (Call_vec3 x y z s) = [x, y, z]"
| "arguments (Call_vec4 x y z w s) = [x, y, z, w]"
| "arguments (Call_splitVec2 v s) = [v]"
| "arguments (Call_splitVec3 v s) = [v]"
| "arguments (Call_xy v s) = [v]"
| "arguments (Call_xz v s) = [v]"
| "arguments (Call_perturbNormal uv p n t b) = [uv, p, n, t, b]"
| "arguments (Call_pbrMetallicRoughnessMaterial a m r ao pn n v c p) =
     [a, m, r] @ opt_socket ao @ [pn, n, v, c, p]"
| "arguments (Call_outputFragColor c p) = [c]"
| "arguments (Call_outputVertexPosition p) = [p]"

fun blocks_constructed :: "factory_call \<Rightarrow> nat" where
  "blocks_constructed (Call_xz v s) = 2"
| "blocks_constructed c = 1"


section \<open>What a builder does to the block it has just allocated\<close>

text \<open>
  Every builder assigns to, and wires into, the block it allocated last, whose reference
  is the length of the heap before the allocation.
\<close>

lemma js_1_not_js_0: "js_1 \<noteq> js_0" "js_0 \<noteq> js_1"
  by (simp_all add: js_0_def js_1_def)

lemma assign_fresh:
  "assign (length h) k v (h @ [b]) = h @ [b\<lparr>props := AList.update k v (props b)\<rparr>]"
  by (simp add: assign_def)

text \<open>
  The target setter, by the target the constructor left: a block constructed \<open>Neutral\<close>
  takes any stage; one constructed \<open>Vertex\<close> takes any stage but \<open>VertexAndFragment\<close>,
  which shares the vertex bit; assigning a block the target it has changes nothing, nor
  does assigning \<open>Fragment\<close> to a block constructed \<open>VertexAndFragment\<close>; and a
  texture block stores no target.
\<close>

lemma set_target_fresh:
  "set_target (length h) v (h @ [b]) =
     (case map_of (props b) ''target'' of
        Some (Target cur) \<Rightarrow>
          if target_bits cur AND target_bits v \<noteq> 0 then h @ [b]
          else h @ [b\<lparr>props := AList.update ''target'' (Target v) (props b)\<rparr>]
      | _ \<Rightarrow> h @ [b])"
  by (simp add: set_target_def assigned_def assign_fresh split: option.splits js_value.splits)

lemma set_target_from_neutral:
  "set_target (length h) v
     (h @ [\<lparr>className = c, name = n, props = (''target'', Target Neutral) # ps, inputs = i\<rparr>]) =
   h @ [\<lparr>className = c, name = n, props = (''target'', Target v) # ps, inputs = i\<rparr>]"
  by (cases v) (simp_all add: set_target_fresh)

lemma set_target_from_vertex:
  "set_target (length h) v
     (h @ [\<lparr>className = c, name = n, props = (''target'', Target Vertex) # ps, inputs = i\<rparr>]) =
   h @ [\<lparr>className = c, name = n,
          props = (''target'', Target (if v = VertexAndFragment then Vertex else v)) # ps,
          inputs = i\<rparr>]"
  by (cases v) (simp_all add: set_target_fresh)

lemma set_target_same:
  "set_target (length h) v
     (h @ [\<lparr>className = c, name = n, props = (''target'', Target v) # ps, inputs = i\<rparr>]) =
   h @ [\<lparr>className = c, name = n, props = (''target'', Target v) # ps, inputs = i\<rparr>]"
  by (cases v) (simp_all add: set_target_fresh)

lemma set_target_fragment_of_both:
  "set_target (length h) Fragment
     (h @ [\<lparr>className = c, name = n, props = (''target'', Target VertexAndFragment) # ps,
             inputs = i\<rparr>]) =
   h @ [\<lparr>className = c, name = n, props = (''target'', Target VertexAndFragment) # ps,
          inputs = i\<rparr>]"
  by (simp add: set_target_fresh)

lemma set_target_of_texture:
  "set_target (length h) v (h @ [\<lparr>className = c, name = n, props = [], inputs = i\<rparr>]) =
   h @ [\<lparr>className = c, name = n, props = [], inputs = i\<rparr>]"
  by (simp add: set_target_fresh)

lemmas set_target_of_new =
  set_target_from_neutral set_target_from_vertex set_target_same set_target_fragment_of_both
  set_target_of_texture

text \<open>
  Wiring into the new block records the wire; only on the \<open>vector\<close> input of a transform
  block does it do more.
\<close>

lemma from_normal_or_tangent_fresh:
  "className b \<noteq> InputBlock \<Longrightarrow>
     from_normal_or_tangent (h @ [b]) src = from_normal_or_tangent h src"
  by (auto simp add: from_normal_or_tangent_def nth_append less_Suc_eq)

lemma connectTo_fresh:
  "connectTo src (ConnectionPoint (length h) p) (h @ [b]) =
     (if className b = TransformBlock \<and> p = ''vector'' \<and> from_normal_or_tangent h src
      then h @ [b\<lparr>props := AList.update ''complementW'' (Number js_0) (props b),
                   inputs := AList.update p src (inputs b)\<rparr>]
      else h @ [b\<lparr>inputs := AList.update p src (inputs b)\<rparr>])"
  by (auto simp add: connectTo_def Let_def assign_fresh from_normal_or_tangent_fresh)

section \<open>Sources\<close>

lemma uniformWorld_block:
  "uniformWorld h =
     (ConnectionPoint (length h) ''output'',
      h @ [\<lparr>className = InputBlock, name = ''world'',
             props = [(''target'', Target Vertex), (''systemValue'', SystemValue World)],
             inputs = []\<rparr>])"
  by (simp add: uniformWorld_def new_block_def assign_fresh set_target_of_new setAsSystemValue_def)

lemma vertexAttribute_block:
  "vertexAttribute attributeName h =
     (ConnectionPoint (length h) ''output'',
      h @ [\<lparr>className = InputBlock, name = attributeName,
             props = [(''target'', Target Vertex), (''attribute'', Str attributeName)],
             inputs = []\<rparr>])"
  by (simp add: vertexAttribute_def new_block_def assign_fresh set_target_of_new setAsAttribute_def)

lemma float_block:
  "float val h =
     (ConnectionPoint (length h) ''output'',
      h @ [\<lparr>className = InputBlock, name = ''float'',
             props = [(''target'', Target Vertex), (''value'', Number val)],
             inputs = []\<rparr>])"
  by (simp add: float_def new_block_def assign_fresh set_target_of_new)

section \<open>Texture sampling options\<close>

lemma sampleTexture_block:
  "sampleTexture texture uv props0 h =
     (length h,
      h @ [\<lparr>className = TextureBlock, name = ''texture'',
             props = [(''convertToGammaSpace'',
                         Bool (nullish (Option.bind props0 TextureBlockProps.convertToGammaSpace) False)),
                      (''convertToLinearSpace'',
                         Bool (nullish (Option.bind props0 TextureBlockProps.convertToLinearSpace) False)),
                      (''disableLevelMultiplication'',
                         Bool (nullish (Option.bind props0 TextureBlockProps.disableLevelMultiplication) False)),
                      (''texture'', TextureRef texture)],
             inputs = [(''uv'', uv)]\<rparr>])"
  by (simp add: sampleTexture_def new_block_def assign_fresh set_target_of_new connectTo_fresh)

text \<open>
  C1. When \<open>sampleTexture\<close> is called without an options record, the texture block it
  creates has \<open>convertToLinearSpace\<close>, \<open>convertToGammaSpace\<close> and
  \<open>disableLevelMultiplication\<close> all set to false. When a record is given, each of the
  three properties is false where the record omits the field and is the supplied value
  where the record has it.
\<close>

theorem sampleTexture_defaults:
  "(case sampleTexture texture uv None h of (b, h') \<Rightarrow>
      className (h' ! b) = TextureBlock
    \<and> assigned h' b ''convertToLinearSpace'' = Some (Bool False)
    \<and> assigned h' b ''convertToGammaSpace'' = Some (Bool False)
    \<and> assigned h' b ''disableLevelMultiplication'' = Some (Bool False))
 \<and> (case sampleTexture texture uv (Some p) h of (b, h') \<Rightarrow>
      className (h' ! b) = TextureBlock
    \<and> assigned h' b ''convertToLinearSpace'' =
        Some (Bool (case TextureBlockProps.convertToLinearSpace p of None \<Rightarrow> False | Some v \<Rightarrow> v))
    \<and> assigned h' b ''convertToGammaSpace'' =
        Some (Bool (case TextureBlockProps.convertToGammaSpace p of None \<Rightarrow> False | Some v \<Rightarrow> v))
    \<and> assigned h' b ''disableLevelMultiplication'' =
        Some (Bool (case TextureBlockProps.disableLevelMultiplication p of None \<Rightarrow> False | Some v \<Rightarrow> v)))"
  by (simp add: sampleTexture_block assigned_def nullish_def)

section \<open>Declared stages\<close>

lemma outputFragColor_block:
  "outputFragColor colorRgb props0 h =
     (length h,
      h @ [\<lparr>className = FragmentOutputBlock, name = ''FragmentOutput'',
             props = [(''target'', Target Fragment),
                      (''convertToGammaSpace'',
                         Bool (nullish (map_option OutputFragColorProps.convertToGammaSpace props0) False)),
                      (''convertToLinearSpace'',
                         Bool (nullish (map_option OutputFragColorProps.convertToLinearSpace props0) False))],
             inputs = [(''rgb'', colorRgb)]\<rparr>])"
  by (simp add: outputFragColor_def new_block_def assign_fresh set_target_of_new connectTo_fresh)

text \<open>
  C2. For every input, \<open>outputFragColor\<close> returns a fragment output block whose target is
  the fragment stage, and \<open>vertexAttribute\<close> returns the output socket of an input block
  (a source: none of its inputs is wired) whose target is the vertex stage.
\<close>

theorem declared_stage_of_sink_and_attribute:
  "(case outputFragColor colorRgb props0 h of (b, h') \<Rightarrow>
      className (h' ! b) = FragmentOutputBlock
    \<and> assigned h' b ''target'' = Some (Target Fragment))
 \<and> (case vertexAttribute attributeName h of (s, h') \<Rightarrow>
      className (h' ! owner s) = InputBlock
    \<and> inputs (h' ! owner s) = []
    \<and> port s = ''output''
    \<and> assigned h' (owner s) ''target'' = Some (Target Vertex))"
  by (simp add: outputFragColor_block vertexAttribute_block assigned_def)

section \<open>Vector assembly\<close>

lemma merge_block:
  "merge x y z w stage h =
     (length h,
      h @ [\<lparr>className = VectorMergerBlock, name = ''Merge'',
             props = [(''target'', Target stage)],
             inputs = [(''x'', x), (''y'', y)]
                        @ (case z of None \<Rightarrow> [] | Some s \<Rightarrow> [(''z'', s)])
                        @ (case w of None \<Rightarrow> [] | Some s \<Rightarrow> [(''w'', s)])\<rparr>])"
  by (simp add: merge_def new_block_def assign_fresh set_target_of_new connectTo_fresh connectTo_opt_def
           split: option.splits)

text \<open>
  C3. \<open>merge\<close> always wires its \<open>x\<close> and \<open>y\<close> arguments to the merger's \<open>x\<close> and \<open>y\<close>
  ports. The \<open>z\<close> port is wired exactly when a socket (not \<open>null\<close>) is passed for \<open>z\<close>,
  and then to that socket; likewise the \<open>w\<close> port. Hence \<open>vec2\<close> wires \<open>x\<close> and \<open>y\<close>
  only, \<open>vec3\<close> wires \<open>x\<close>, \<open>y\<close> and \<open>z\<close>, and \<open>vec4\<close> wires all four.
\<close>

theorem merge_wires_given_components:
  "(case merge x y z w stage h of (m, h') \<Rightarrow>
      className (h' ! m) = VectorMergerBlock
    \<and> wired h' m ''x'' = Some x \<and> wired h' m ''y'' = Some y
    \<and> wired h' m ''z'' = z \<and> wired h' m ''w'' = w
    \<and> (wired h' m ''z'' \<noteq> None) = (z \<noteq> None)
    \<and> (wired h' m ''w'' \<noteq> None) = (w \<noteq> None))
 \<and> (case vec2 x y stage h of (r, h') \<Rightarrow>
      r = ConnectionPoint (length h) ''xyOut''
    \<and> wired h' (owner r) ''x'' = Some x \<and> wired h' (owner r) ''y'' = Some y
    \<and> wired h' (owner r) ''z'' = None \<and> wired h' (owner r) ''w'' = None)
 \<and> (case vec3 x y z3 stage h of (r, h') \<Rightarrow>
      r = ConnectionPoint (length h) ''xyzOut''
    \<and> wired h' (owner r) ''x'' = Some x \<and> wired h' (owner r) ''y'' = Some y
    \<and> wired h' (owner r) ''z'' = Some z3 \<and> wired h' (owner r) ''w'' = None)
 \<and> (case vec4 x y z3 w4 stage h of (r, h') \<Rightarrow>
      r = ConnectionPoint (length h) ''xyzw''
    \<and> wired h' (owner r) ''x'' = Some x \<and> wired h' (owner r) ''y'' = Some y
    \<and> wired h' (owner r) ''z'' = Some z3 \<and> wired h' (owner r) ''w'' = Some w4)"
  by (simp add: merge_block vec2_def vec3_def vec4_def wired_def split: option.splits)

section \<open>The derived extractors\<close>

lemma splitVec3_block:
  "splitVec3 v stage h =
     (length h,
      h @ [\<lparr>className = VectorSplitterBlock, name = ''splitVec3'',
             props = [(''target'', Target stage)],
             inputs = [(''xyzIn'', v)]\<rparr>])"
  by (simp add: splitVec3_def new_block_def assign_fresh set_target_of_new connectTo_fresh)

lemma xz_blocks:
  "xz v stage h =
     (ConnectionPoint (Suc (length h)) ''xyOut'',
      h @ [\<lparr>className = VectorSplitterBlock, name = ''splitVec3'',
             props = [(''target'', Target stage)],
             inputs = [(''xyzIn'', v)]\<rparr>,
           \<lparr>className = VectorMergerBlock, name = ''OutputXZ'',
             props = [(''target'', Target stage)],
             inputs = [(''x'', ConnectionPoint (length h) ''x''),
                       (''y'', ConnectionPoint (length h) ''z'')]\<rparr>])"
  by (simp add: xz_def splitVec3_block new_block_def assign_fresh set_target_of_new connectTo_fresh)

lemma xz_manual_blocks:
  "xz_manual v stage h =
     (ConnectionPoint (Suc (length h)) ''xyOut'',
      h @ [\<lparr>className = VectorSplitterBlock, name = ''splitVec3'',
             props = [(''target'', Target stage)],
             inputs = [(''xyzIn'', v)]\<rparr>,
           \<lparr>className = VectorMergerBlock, name = ''Merge'',
             props = [(''target'', Target stage)],
             inputs = [(''x'', ConnectionPoint (length h) ''x''),
                       (''y'', ConnectionPoint (length h) ''z'')]\<rparr>])"
  by (simp add: xz_manual_def splitVec3_block vec2_def merge_block)

text \<open>
  C4. For every vec3 socket \<open>v\<close> and stage \<open>s\<close>, \<open>xz v s\<close> allocates two blocks and touches
  no other: a splitter whose \<open>xyzIn\<close> port is wired to \<open>v\<close>, and a fresh merger whose \<open>x\<close>
  port is wired to the splitter's \<open>x\<close> output and whose \<open>y\<close> port is wired to the
  splitter's \<open>z\<close> output. The splitter's \<open>y\<close> output drives no port of the merger, and
  (for a socket \<open>v\<close> of a block that exists) no port of either new block. The result is
  the merger's \<open>xyOut\<close> socket. It is the socket that splitting \<open>v\<close> by hand and merging
  the \<open>x\<close> and \<open>z\<close> components returns, and the two heaps are the same but for the
  display name of the merger (\<open>OutputXZ\<close> here, \<open>Merge\<close> by hand).
\<close>

theorem xz_splits_and_merges_x_and_z:
  "(case xz v stage h of (r, h') \<Rightarrow>
      length h' = length h + 2 \<and> take (length h) h' = h
    \<and> className (h' ! length h) = VectorSplitterBlock
    \<and> assigned h' (length h) ''target'' = Some (Target stage)
    \<and> inputs (h' ! length h) = [(''xyzIn'', v)]
    \<and> className (h' ! Suc (length h)) = VectorMergerBlock
    \<and> assigned h' (Suc (length h)) ''target'' = Some (Target stage)
    \<and> inputs (h' ! Suc (length h)) =
          [(''x'', ConnectionPoint (length h) ''x''), (''y'', ConnectionPoint (length h) ''z'')]
    \<and> ConnectionPoint (length h) ''y'' \<notin> snd ` set (inputs (h' ! Suc (length h)))
    \<and> (owner v < length h \<longrightarrow>
          (\<forall>b \<in> set (drop (length h) h'). ConnectionPoint (length h) ''y'' \<notin> snd ` set (inputs b)))
    \<and> r = ConnectionPoint (Suc (length h)) ''xyOut'')
 \<and> fst (xz v stage h) = fst (xz_manual v stage h)
 \<and> snd (xz v stage h) =
      (snd (xz_manual v stage h))
        [Suc (length h) := (snd (xz_manual v stage h) ! Suc (length h))\<lparr>name := ''OutputXZ''\<rparr>]"
  (is "?built \<and> ?socket \<and> ?heap")
proof (intro conjI)
  show ?built
    by (auto simp add: xz_blocks assigned_def nth_append)
next
  show ?socket
    by (simp add: xz_blocks xz_manual_blocks)
next
  have "snd (xz_manual v stage h) ! Suc (length h) =
          \<lparr>className = VectorMergerBlock, name = ''Merge'',
            props = [(''target'', Target stage)],
            inputs = [(''x'', ConnectionPoint (length h) ''x''),
                      (''y'', ConnectionPoint (length h) ''z'')]\<rparr>"
    by (simp add: xz_manual_blocks nth_append)
  then show ?heap
    by (simp add: xz_blocks xz_manual_blocks list_update_append)
qed

theorem xz_splits_and_merges_x_and_z_witness:
  "owner (ConnectionPoint 0 ''output'') < length (snd (vertexAttribute ''position'' []))
 \<and> fst (xz (ConnectionPoint 0 ''output'') Vertex (snd (vertexAttribute ''position'' [])))
       = ConnectionPoint 2 ''xyOut''
 \<and> inputs (snd (xz (ConnectionPoint 0 ''output'') Vertex (snd (vertexAttribute ''position'' []))) ! 2)
       = [(''x'', ConnectionPoint 1 ''x''), (''y'', ConnectionPoint 1 ''z'')]
 \<and> ConnectionPoint 1 ''y'' \<notin>
       snd ` set (inputs (snd (xz (ConnectionPoint 0 ''output'') Vertex
                                  (snd (vertexAttribute ''position'' []))) ! 1))"
  using xz_splits_and_merges_x_and_z
          [where v = "ConnectionPoint 0 ''output''" and stage = Vertex
             and h = "snd (vertexAttribute ''position'' [])"]
  by (simp add: vertexAttribute_block xz_blocks xz_manual_blocks)

lemma xy_block:
  "xy v stage h =
     (ConnectionPoint (length h) ''xyOut'',
      h @ [\<lparr>className = VectorSplitterBlock, name = ''splitVec3'',
             props = [(''target'', Target stage)],
             inputs = [(''xyzIn'', v)]\<rparr>])"
  by (simp add: xy_def splitVec3_block)

lemma xy_manual_blocks:
  "xy_manual v stage h =
     (ConnectionPoint (Suc (length h)) ''xyOut'',
      h @ [\<lparr>className = VectorSplitterBlock, name = ''splitVec3'',
             props = [(''target'', Target stage)],
             inputs = [(''xyzIn'', v)]\<rparr>,
           \<lparr>className = VectorMergerBlock, name = ''Merge'',
             props = [(''target'', Target stage)],
             inputs = [(''x'', ConnectionPoint (length h) ''x''),
                       (''y'', ConnectionPoint (length h) ''y'')]\<rparr>])"
  by (simp add: xy_manual_def splitVec3_block vec2_def merge_block)

text \<open>
  C5, as stated, fails. The claim has \<open>xy\<close> build a splitter and a fresh merger and
  return the merger's output. For the call \<open>xy(vertexAttribute("position"), Stage.VERT)\<close>
  the heap ends with two blocks, the attribute's input block and one splitter, none of them
  a merger; the returned socket belongs to the splitter; and the result differs from
  that of splitting and re-merging by hand.
\<close>

theorem xy_builds_no_merger:
  "(case xy (ConnectionPoint 0 ''output'') Vertex (snd (vertexAttribute ''position'' [])) of
      (r, h') \<Rightarrow>
        r = ConnectionPoint 1 ''xyOut''
      \<and> length h' = 2
      \<and> className (h' ! owner r) = VectorSplitterBlock
      \<and> className (h' ! owner r) \<noteq> VectorMergerBlock
      \<and> VectorMergerBlock \<notin> set (map className h'))
 \<and> xy (ConnectionPoint 0 ''output'') Vertex (snd (vertexAttribute ''position'' []))
       \<noteq> xy_manual (ConnectionPoint 0 ''output'') Vertex (snd (vertexAttribute ''position'' []))"
  by (simp add: xy_block xy_manual_blocks vertexAttribute_block)

text \<open>
  C5, amended. For every vec3 socket \<open>v\<close> and stage \<open>s\<close>, \<open>xy v s\<close> is built on
  \<open>splitVec3\<close> alone: it allocates one block, a splitter of stage \<open>s\<close> whose \<open>xyzIn\<close> port
  is wired to \<open>v\<close>, touches no other block, creates no merger, and returns the splitter's
  own two-component output \<open>xyOut\<close>.
\<close>

theorem xy_returns_the_splitter_output:
  "xy v stage h = (ConnectionPoint (fst (splitVec3 v stage h)) ''xyOut'', snd (splitVec3 v stage h))
 \<and> (case xy v stage h of (r, h') \<Rightarrow>
      length h' = length h + 1 \<and> take (length h) h' = h
    \<and> r = ConnectionPoint (length h) ''xyOut''
    \<and> className (h' ! length h) = VectorSplitterBlock
    \<and> assigned h' (length h) ''target'' = Some (Target stage)
    \<and> inputs (h' ! length h) = [(''xyzIn'', v)])"
  by (simp add: xy_block splitVec3_block assigned_def)

section \<open>Geometric transforms\<close>

lemma transformPosition_block:
  "transformPosition transformMat4 positionVec3 stage h =
     (ConnectionPoint (length h) ''output'',
      h @ [\<lparr>className = TransformBlock, name = ''TransformPosition'',
             props = [(''target'', Target (if stage = VertexAndFragment then Vertex else stage)),
                      (''complementZ'', Number js_0),
                      (''complementW'',
                         Number (if from_normal_or_tangent h positionVec3 then js_0 else js_1))],
             inputs = [(''vector'', positionVec3), (''transform'', transformMat4)]\<rparr>])"
  by (simp add: transformPosition_def new_block_def assign_fresh set_target_of_new connectTo_fresh)

lemma transformDirection_block:
  "transformDirection transformMat4 directionVec3 stage h =
     (ConnectionPoint (length h) ''output'',
      h @ [\<lparr>className = TransformBlock, name = ''TransformDirection'',
             props = [(''target'', Target (if stage = VertexAndFragment then Vertex else stage)),
                      (''complementZ'', Number js_0),
                      (''complementW'', Number js_0)],
             inputs = [(''vector'', directionVec3), (''transform'', transformMat4)]\<rparr>])"
  by (simp add: transformDirection_def new_block_def assign_fresh set_target_of_new connectTo_fresh)

text \<open>
  C6. The claim has \<open>transformPosition\<close> configure \<open>complementW = 1\<close> for every vector
  socket. The builder does assign \<open>complementW = 1\<close>, but before it wires the vector, and
  the wiring then resets it: for every matrix socket, vector socket and stage,
  \<open>transformPosition\<close> leaves a transform block with \<open>complementZ = 0\<close> and with
  \<open>complementW = 1\<close> unless the vector socket belongs to an input block named \<open>normal\<close> or
  \<open>tangent\<close>, where it leaves \<open>complementW = 0\<close>. \<open>transformDirection\<close> always leaves
  \<open>complementW = 0\<close> and \<open>complementZ = 0\<close>. Both wire the matrix to the \<open>transform\<close> input
  and the vector to the \<open>vector\<close> input, and return the block's \<open>output\<close> socket.
\<close>

theorem transformPosition_complement_depends_on_vector:
  "(case transformPosition transformMat4 vec stage h of (r, h') \<Rightarrow>
      r = ConnectionPoint (length h) ''output''
    \<and> className (h' ! owner r) = TransformBlock
    \<and> assigned h' (owner r) ''complementW'' =
        Some (Number (if from_normal_or_tangent h vec then js_0 else js_1))
    \<and> assigned h' (owner r) ''complementZ'' = Some (Number js_0)
    \<and> wired h' (owner r) ''transform'' = Some transformMat4
    \<and> wired h' (owner r) ''vector'' = Some vec)
 \<and> (case transformDirection transformMat4 vec stage h of (r, h') \<Rightarrow>
      r = ConnectionPoint (length h) ''output''
    \<and> className (h' ! owner r) = TransformBlock
    \<and> assigned h' (owner r) ''complementW'' = Some (Number js_0)
    \<and> assigned h' (owner r) ''complementZ'' = Some (Number js_0)
    \<and> wired h' (owner r) ''transform'' = Some transformMat4
    \<and> wired h' (owner r) ''vector'' = Some vec)"
  by (simp add: transformPosition_block transformDirection_block assigned_def wired_def)

text \<open>
  The call \<open>transformPosition(uniformWorld(), vertexAttribute("normal"), Stage.VERT)\<close>:
  the transform block is block 2, and its \<open>complementW\<close> ends as \<open>0\<close>, not as the \<open>1\<close>
  the builder assigned.
\<close>

theorem transformPosition_complement_depends_on_vector_witness:
  "from_normal_or_tangent (snd (vertexAttribute ''normal'' (snd (uniformWorld []))))
     (ConnectionPoint 1 ''output'')
 \<and> fst (transformPosition (ConnectionPoint 0 ''output'') (ConnectionPoint 1 ''output'') Vertex
           (snd (vertexAttribute ''normal'' (snd (uniformWorld [])))))
       = ConnectionPoint 2 ''output''
 \<and> assigned (snd (transformPosition (ConnectionPoint 0 ''output'') (ConnectionPoint 1 ''output'')
                     Vertex (snd (vertexAttribute ''normal'' (snd (uniformWorld []))))))
       2 ''complementW'' = Some (Number js_0)
 \<and> assigned (snd (transformPosition (ConnectionPoint 0 ''output'') (ConnectionPoint 1 ''output'')
                     Vertex (snd (vertexAttribute ''normal'' (snd (uniformWorld []))))))
       2 ''complementW'' \<noteq> Some (Number js_1)"
  using transformPosition_complement_depends_on_vector
          [where ?transformMat4.0 = "ConnectionPoint 0 ''output''"
             and vec = "ConnectionPoint 1 ''output''" and stage = Vertex
             and h = "snd (vertexAttribute ''normal'' (snd (uniformWorld [])))"]
  by (simp add: uniformWorld_block vertexAttribute_block transformPosition_block
        from_normal_or_tangent_def assigned_def js_1_not_js_0 numeral_2_eq_2)

section \<open>The PBR material\<close>

lemma pbrMetallicRoughnessMaterial_block:
  "pbrMetallicRoughnessMaterial albedoRgb metallicFloat roughnessFloat ambientOcclusionFloat
       perturbedNormalVec3 normalWorldVec3 viewMat4 cameraPositionVec3 positionWorldVec3 h =
     (ConnectionPoint (length h) ''lighting'',
      h @ [\<lparr>className = PBRMetallicRoughnessBlock, name = ''PBRMetallicRoughness'',
             props = [(''target'', Target VertexAndFragment),
                      (''useEnergyConservation'', Bool True),
                      (''useRadianceOcclusion'', Bool True), (''useHorizonOcclusion'', Bool True)],
             inputs = [(''baseColor'', albedoRgb), (''metallic'', metallicFloat),
                       (''roughness'', roughnessFloat)]
                      @ (case ambientOcclusionFloat of None \<Rightarrow> [] | Some s \<Rightarrow> [(''ambientOcc'', s)])
                      @ [(''perturbedNormal'', perturbedNormalVec3),
                         (''worldNormal'', normalWorldVec3), (''view'', viewMat4),
                         (''cameraPosition'', cameraPositionVec3),
                         (''worldPosition'', positionWorldVec3)]\<rparr>])"
  by (simp add: pbrMetallicRoughnessMaterial_def new_block_def assign_fresh set_target_of_new
        connectTo_fresh connectTo_opt_def split: option.splits)

text \<open>
  C7. The claim has the PBR block's target fixed to the fragment stage. The builder does
  assign \<open>target = Fragment\<close>, but the host constructs a PBR block with the target
  \<open>VertexAndFragment\<close>, which shares the fragment bit, so the setter ignores the
  assignment: on every call the block's target is \<open>VertexAndFragment\<close>, not \<open>Fragment\<close>.
  The rest is as the claim says: \<open>useEnergyConservation\<close>, \<open>useRadianceOcclusion\<close> and
  \<open>useHorizonOcclusion\<close> are true; the \<open>ambientOcc\<close> input is wired exactly when a socket
  (not \<open>null\<close>) is passed, and then to that socket; the other eight inputs are always
  wired to their arguments; and the function returns the block's \<open>lighting\<close> socket.
\<close>

theorem pbrMetallicRoughnessMaterial_target_stays_both:
  "(case pbrMetallicRoughnessMaterial albedoRgb metallicFloat roughnessFloat ambientOcclusionFloat
       perturbedNormalVec3 normalWorldVec3 viewMat4 cameraPositionVec3 positionWorldVec3 h of
     (r, h') \<Rightarrow>
      r = ConnectionPoint (length h) ''lighting''
    \<and> className (h' ! owner r) = PBRMetallicRoughnessBlock
    \<and> assigned h' (owner r) ''target'' = Some (Target VertexAndFragment)
    \<and> assigned h' (owner r) ''target'' \<noteq> Some (Target Fragment)
    \<and> assigned h' (owner r) ''useEnergyConservation'' = Some (Bool True)
    \<and> assigned h' (owner r) ''useRadianceOcclusion'' = Some (Bool True)
    \<and> assigned h' (owner r) ''useHorizonOcclusion'' = Some (Bool True)
    \<and> wired h' (owner r) ''ambientOcc'' = ambientOcclusionFloat
    \<and> (wired h' (owner r) ''ambientOcc'' \<noteq> None) = (ambientOcclusionFloat \<noteq> None)
    \<and> wired h' (owner r) ''baseColor'' = Some albedoRgb
    \<and> wired h' (owner r) ''metallic'' = Some metallicFloat
    \<and> wired h' (owner r) ''roughness'' = Some roughnessFloat
    \<and> wired h' (owner r) ''perturbedNormal'' = Some perturbedNormalVec3
    \<and> wired h' (owner r) ''worldNormal'' = Some normalWorldVec3
    \<and> wired h' (owner r) ''view'' = Some viewMat4
    \<and> wired h' (owner r) ''cameraPosition'' = Some cameraPositionVec3
    \<and> wired h' (owner r) ''worldPosition'' = Some positionWorldVec3)"
  by (simp add: pbrMetallicRoughnessMaterial_block assigned_def wired_def split: option.splits)

text \<open>
  The call \<open>pbrMetallicRoughnessMaterial(a, a, a, null, a, a, a, a, a)\<close> with
  \<open>a = float(1)\<close>: the PBR block is block 1, and its target is \<open>VertexAndFragment\<close>.
\<close>

theorem pbrMetallicRoughnessMaterial_target_stays_both_witness:
  "fst (pbrMetallicRoughnessMaterial (ConnectionPoint 0 ''output'') (ConnectionPoint 0 ''output'')
          (ConnectionPoint 0 ''output'') None (ConnectionPoint 0 ''output'')
          (ConnectionPoint 0 ''output'') (ConnectionPoint 0 ''output'')
          (ConnectionPoint 0 ''output'') (ConnectionPoint 0 ''output'') (snd (float js_1 [])))
     = ConnectionPoint 1 ''lighting''
 \<and> assigned
      (snd (pbrMetallicRoughnessMaterial (ConnectionPoint 0 ''output'') (ConnectionPoint 0 ''output'')
          (ConnectionPoint 0 ''output'') None (ConnectionPoint 0 ''output'')
          (ConnectionPoint 0 ''output'') (ConnectionPoint 0 ''output'')
          (ConnectionPoint 0 ''output'') (ConnectionPoint 0 ''output'') (snd (float js_1 []))))
      1 ''target'' = Some (Target VertexAndFragment)
 \<and> assigned
      (snd (pbrMetallicRoughnessMaterial (ConnectionPoint 0 ''output'') (ConnectionPoint 0 ''output'')
          (ConnectionPoint 0 ''output'') None (ConnectionPoint 0 ''output'')
          (ConnectionPoint 0 ''output'') (ConnectionPoint 0 ''output'')
          (ConnectionPoint 0 ''output'') (ConnectionPoint 0 ''output'') (snd (float js_1 []))))
      1 ''target'' \<noteq> Some (Target Fragment)"
  using pbrMetallicRoughnessMaterial_target_stays_both
          [where albedoRgb = "ConnectionPoint 0 ''output''"
             and metallicFloat = "ConnectionPoint 0 ''output''"
             and roughnessFloat = "ConnectionPoint 0 ''output''"
             and ambientOcclusionFloat = None
             and ?perturbedNormalVec3.0 = "ConnectionPoint 0 ''output''"
             and ?normalWorldVec3.0 = "ConnectionPoint 0 ''output''"
             and ?viewMat4.0 = "ConnectionPoint 0 ''output''"
             and ?cameraPositionVec3.0 = "ConnectionPoint 0 ''output''"
             and ?positionWorldVec3.0 = "ConnectionPoint 0 ''output''"
             and h = "snd (float js_1 [])"]
  by (simp add: float_block pbrMetallicRoughnessMaterial_block assigned_def)

section \<open>Display names\<close>

lemma mulVec_block:
  "mulVec left right stage h =
     (ConnectionPoint (length h) ''output'',
      h @ [\<lparr>className = MultiplyBlock, name = ''scaledMeshUV'',
             props = [(''target'', Target stage)],
             inputs = [(''left'', left), (''right'', right)]\<rparr>])"
  by (simp add: mulVec_def new_block_def assign_fresh set_target_of_new connectTo_fresh)

lemma vecFromBabylon_block:
  "vecFromBabylon vec h =
     (ConnectionPoint (length h) ''output'',
      h @ [\<lparr>className = InputBlock, name = ''Mesh UV scale factor'',
             props = [(''target'', Target Vertex), (''isConstant'', Bool True),
                      (''value'', Vector vec)],
             inputs = []\<rparr>])"
  by (simp add: vecFromBabylon_def new_block_def assign_fresh set_target_of_new)

text \<open>
  C9, as stated, fails. The claim has both display names used inside \<open>mulVec\<close>. For the
  call \<open>mulVec(vertexAttribute("uv"), float(2), Stage.VERT)\<close> the heap ends with three
  blocks, named \<open>uv\<close>, \<open>float\<close> and \<open>scaledMeshUV\<close>: no block is named
  \<open>Mesh UV scale factor\<close>.
\<close>

theorem mulVec_never_names_a_scale_factor:
  "(case mulVec (ConnectionPoint 0 ''output'') (ConnectionPoint 1 ''output'') Vertex
           (snd (float js_2 (snd (vertexAttribute ''uv'' [])))) of
      (r, h') \<Rightarrow>
        map name h' = [''uv'', ''float'', ''scaledMeshUV'']
      \<and> ''Mesh UV scale factor'' \<notin> set (map name h'))"
  by (simp add: mulVec_block float_block vertexAttribute_block)

text \<open>
  C9, amended. Every call of \<open>mulVec\<close> creates exactly one block, a multiply block with the
  fixed display name \<open>scaledMeshUV\<close>, whatever its arguments; every call of
  \<open>vecFromBabylon\<close> creates exactly one block, an input block with the fixed display name
  \<open>Mesh UV scale factor\<close>, whatever its argument. Neither touches an existing block.
\<close>

theorem fixed_display_names:
  "(case mulVec left right stage h of (r, h') \<Rightarrow>
      take (length h) h' = h
    \<and> map className (drop (length h) h') = [MultiplyBlock]
    \<and> map name (drop (length h) h') = [''scaledMeshUV''])
 \<and> (case vecFromBabylon vec h of (r, h') \<Rightarrow>
      take (length h) h' = h
    \<and> map className (drop (length h) h') = [InputBlock]
    \<and> map name (drop (length h) h') = [''Mesh UV scale factor''])"
  by (simp add: mulVec_block vecFromBabylon_block)

section \<open>The fragment sink\<close>

text \<open>
  C10. For every colour socket, \<open>outputFragColor\<close> wires the caller's socket to the \<open>rgb\<close>
  input of the fragment output block it creates, and to nothing else: an input port \<open>p\<close>
  of that block is wired if and only if \<open>p\<close> is \<open>rgb\<close>. In particular the \<open>rgba\<close> and
  \<open>a\<close> (alpha) inputs are left unwired. No existing block is touched.
\<close>

theorem outputFragColor_wires_rgb_only:
  "(case outputFragColor colorRgb props0 h of (b, h') \<Rightarrow>
      b = length h \<and> take (length h) h' = h
    \<and> className (h' ! b) = FragmentOutputBlock
    \<and> inputs (h' ! b) = [(''rgb'', colorRgb)]
    \<and> wired h' b p = (if p = ''rgb'' then Some colorRgb else None)
    \<and> wired h' b ''rgba'' = None
    \<and> wired h' b ''a'' = None)"
  by (simp add: outputFragColor_block wired_def)

section \<open>Fresh nodes on every call\<close>

lemmas builder_defs =
  uniformCameraPosition_def uniformView_def uniformViewProjection_def uniformWorld_def
  vertexAttribute_def float_def constFloat_def uniformFloat_def sampleTexture_def
  transformPosition_def transformDirection_def fract_def mul_def mulVec_def merge_def
  vecFromBabylon_def vec2_def vec3_def vec4_def splitVec2_def splitVec3_def xy_def xz_def
  perturbNormal_def pbrMetallicRoughnessMaterial_def outputFragColor_def
  outputVertexPosition_def setAsSystemValue_def setAsAttribute_def new_block_def
  connectTo_opt_def

lemmas on_new_block = assign_fresh set_target_of_new connectTo_fresh

lemma call_keeps_heap: "take (length h) (snd (call c h)) = h"
  by (cases c) (simp_all add: builder_defs on_new_block Let_def split: option.splits)

lemma call_node_new: "length h \<le> node_of (fst (call c h))"
  by (cases c) (simp_all add: builder_defs on_new_block Let_def split: option.splits)

lemma call_constructs: "length (snd (call c h)) = length h + blocks_constructed c"
  by (cases c) (simp_all add: builder_defs on_new_block Let_def split: option.splits)

lemma call_node_allocated: "node_of (fst (call c h)) < length (snd (call c h))"
  by (cases c) (simp_all add: builder_defs on_new_block Let_def split: option.splits)

lemma call_wires_arguments_or_new:
  "b \<in> set (drop (length h) (snd (call c h))) \<Longrightarrow> src \<in> snd ` set (inputs b) \<Longrightarrow>
     src \<in> set (arguments c) \<or> (length h \<le> owner src \<and> owner src < length (snd (call c h)))"
  by (cases c) (auto simp add: builder_defs on_new_block Let_def split: option.splits if_splits)

lemma call_grows: "length h \<le> length (snd (call c h))"
  by (simp add: call_constructs)

lemma run_keeps_heap: "take (length h) (run cs h) = h"
proof (induction cs arbitrary: h)
  case Nil
  show ?case by simp
next
  case (Cons c cs)
  let ?h1 = "snd (call c h)"
  have "take (length h) (run cs ?h1) = take (length h) (take (length ?h1) (run cs ?h1))"
    using call_grows [of h c] by (simp add: min_absorb1)
  also have "\<dots> = take (length h) ?h1"
    by (simp only: Cons.IH)
  also have "\<dots> = h"
    by (rule call_keeps_heap)
  finally show ?case
    by simp
qed

lemma run_grows: "length h \<le> length (run cs h)"
proof -
  have "length h = length (take (length h) (run cs h))"
    by (simp only: run_keeps_heap)
  then show ?thesis
    by simp
qed

text \<open>
  C8. For every exported builder \<open>c\<close> and every heap \<open>h\<close>, the call constructs its blocks
  anew (two for \<open>xz\<close>, one for every other builder) and leaves the blocks of \<open>h\<close> as they
  were. The node it returns (the returned block, or the block that owns the returned
  socket) is one of the new blocks. Every wire the call makes goes into a new block, and
  comes from a socket the caller passed or from another block the same call constructed:
  a node that an earlier call returned is used only if the caller passes it. So for any
  two calls \<open>c1\<close> and \<open>c2\<close> (the same function with the same arguments included), with any
  calls \<open>cs\<close> made in between, the two returned nodes differ, the two returned values
  differ, and the later calls leave the blocks of the first call as they were: nothing is
  cached, pooled or reused.
\<close>

theorem every_call_returns_a_fresh_node:
  "length (snd (call c h)) = length h + blocks_constructed c
 \<and> take (length h) (snd (call c h)) = h
 \<and> length h \<le> node_of (fst (call c h))
 \<and> node_of (fst (call c h)) < length (snd (call c h))
 \<and> (\<forall>b \<in> set (drop (length h) (snd (call c h))). \<forall>src \<in> snd ` set (inputs b).
        src \<in> set (arguments c)
      \<or> (length h \<le> owner src \<and> owner src < length (snd (call c h))))
 \<and> node_of (fst (call c2 (run cs (snd (call c1 h))))) \<noteq> node_of (fst (call c1 h))
 \<and> fst (call c2 (run cs (snd (call c1 h)))) \<noteq> fst (call c1 h)
 \<and> take (length (snd (call c1 h))) (snd (call c2 (run cs (snd (call c1 h))))) = snd (call c1 h)"
proof -
  let ?h1 = "snd (call c1 h)"
  let ?h2 = "run cs ?h1"
  have "node_of (fst (call c1 h)) < length ?h1"
    by (rule call_node_allocated)
  also have "\<dots> \<le> length ?h2"
    by (rule run_grows)
  also have "\<dots> \<le> node_of (fst (call c2 ?h2))"
    by (rule call_node_new)
  finally have later: "node_of (fst (call c1 h)) < node_of (fst (call c2 ?h2))" .
  then have nodes: "node_of (fst (call c2 ?h2)) \<noteq> node_of (fst (call c1 h))"
    by simp
  then have results: "fst (call c2 ?h2) \<noteq> fst (call c1 h)"
    by auto
  have "take (length ?h1) (snd (call c2 ?h2)) = take (length ?h1) (take (length ?h2) (snd (call c2 ?h2)))"
    using run_grows [of ?h1 cs] by (simp add: min_absorb1)
  also have "\<dots> = take (length ?h1) ?h2"
    by (simp only: call_keeps_heap)
  also have "\<dots> = ?h1"
    by (rule run_keeps_heap)
  finally have kept: "take (length ?h1) (snd (call c2 ?h2)) = ?h1" .
  have wires: "\<forall>b \<in> set (drop (length h) (snd (call c h))). \<forall>src \<in> snd ` set (inputs b).
        src \<in> set (arguments c)
      \<or> (length h \<le> owner src \<and> owner src < length (snd (call c h)))"
    using call_wires_arguments_or_new [of _ h c] by blast
  from call_constructs [of c h] call_keeps_heap [of h c] call_node_new [of h c]
    call_node_allocated [of c h] wires nodes results kept
  show ?thesis
    by (intro conjI)
qed

text \<open>
  An example. After \<open>vertexAttribute("position")\<close> and a \<open>splitVec3\<close> of it, which returns
  block 1, the call \<open>xz\<close> of the same socket constructs blocks 2 and 3: its merger, block
  3, is wired to its own splitter, block 2, and not to the splitter returned before.
  And two calls \<open>float(1)\<close> return the sockets of two blocks.
\<close>

theorem every_call_returns_a_fresh_node_witness:
  "snd (call (Call_xz (ConnectionPoint 0 ''output'') Vertex)
          (run [Call_vertexAttribute ''position'', Call_splitVec3 (ConnectionPoint 0 ''output'') Vertex] []))
     ! 3
   \<in> set (drop (length (run [Call_vertexAttribute ''position'',
                              Call_splitVec3 (ConnectionPoint 0 ''output'') Vertex] []))
        (snd (call (Call_xz (ConnectionPoint 0 ''output'') Vertex)
          (run [Call_vertexAttribute ''position'', Call_splitVec3 (ConnectionPoint 0 ''output'') Vertex] []))))
 \<and> snd ` set (inputs
      (snd (call (Call_xz (ConnectionPoint 0 ''output'') Vertex)
          (run [Call_vertexAttribute ''position'', Call_splitVec3 (ConnectionPoint 0 ''output'') Vertex] []))
       ! 3))
     = {ConnectionPoint 2 ''x'', ConnectionPoint 2 ''z''}
 \<and> ConnectionPoint 2 ''x'' \<notin> set (arguments (Call_xz (ConnectionPoint 0 ''output'') Vertex))
 \<and> length (run [Call_vertexAttribute ''position'',
                 Call_splitVec3 (ConnectionPoint 0 ''output'') Vertex] []) = 2
 \<and> length (snd (call (Call_xz (ConnectionPoint 0 ''output'') Vertex)
          (run [Call_vertexAttribute ''position'', Call_splitVec3 (ConnectionPoint 0 ''output'') Vertex] [])))
     = 4
 \<and> fst (call (Call_float js_1) []) = Socket (ConnectionPoint 0 ''output'')
 \<and> fst (call (Call_float js_1) (run [] (snd (call (Call_float js_1) []))))
       = Socket (ConnectionPoint 1 ''output'')
 \<and> fst (call (Call_float js_1) (run [] (snd (call (Call_float js_1) []))))
       \<noteq> fst (call (Call_float js_1) [])"
  using every_call_returns_a_fresh_node
          [where c = "Call_xz (ConnectionPoint 0 ''output'') Vertex"
             and h = "run [Call_vertexAttribute ''position'',
                           Call_splitVec3 (ConnectionPoint 0 ''output'') Vertex] []"
             and ?c1.0 = "Call_float js_1" and ?c2.0 = "Call_float js_1" and cs = "[]"]
  by (simp add: vertexAttribute_block splitVec3_block xz_blocks float_block numeral_2_eq_2 numeral_3_eq_3)

end
